theory Spec2Isabelle
  imports
    Complex_Main
    "HOL-Library.Char_ord"
    "HOL-Library.List_Lexorder"
    "HOL-Library.Log_Nat"
    "HOL-Library.Multiset"
begin

section \<open>The Bless uptime tracker: \<^verbatim>\<open>bless_points_tracker.py\<close>\<close>

text \<open>
  A shallow embedding of the class \<^verbatim>\<open>BlessUptimeTracker\<close>: the reconstruction of daily
  deltas from cumulative counters (\<^verbatim>\<open>calculate_daily_uptime\<close>), the construction and
  upsert of the summary and daily documents (\<^verbatim>\<open>save_to_database\<close>) and the retry loop
  around the two fetches (\<^verbatim>\<open>process_account\<close>).

  Python integers are \<open>int\<close>. Strings are \<open>string\<close>, read as the UTF-8 bytes of the Python
  string: the lexicographic order on bytes is then the order of Python's \<^verbatim>\<open>str\<close> (by code
  point). A dictionary whose keys are read one by one with \<^verbatim>\<open>.get\<close> is a record of
  optional fields, \<open>None\<close> standing for an absent key.
\<close>

subsection \<open>Python floats\<close>

text \<open>
  A finite Python float is modelled by the rational number it denotes. Every arithmetic
  operation of binary64 returns the exact result rounded to the nearest representable
  number, ties to the even significand; \<open>fl\<close> is that rounding (53 bits of significand,
  least exponent \<open>-1074\<close>). The model has no infinities: Python raises \<^verbatim>\<open>OverflowError\<close>
  when an integer beyond about \<open>1.8e308\<close> is converted, which no counter of minutes
  reaches, and the model is meant below that bound.
\<close>

type_synonym pyfloat = rat

definition pow2 :: "int \<Rightarrow> rat" where
  "pow2 k = (if 0 \<le> k then 2 ^ nat k else 1 / 2 ^ nat (- k))"

definition round_half_even :: "rat \<Rightarrow> int" where
  "round_half_even x =
     (let f = \<lfloor>x\<rfloor>; d = x - of_int f
      in if d < 1 / 2 then f
         else if 1 / 2 < d then f + 1
         else if even f then f else f + 1)"

definition binary_exponent :: "rat \<Rightarrow> int" where
  \<comment> \<open>for \<open>0 < x\<close>: the \<open>e\<close> with \<open>2 ^ e \<le> x < 2 ^ (e + 1)\<close>\<close>
  "binary_exponent x =
     (let (p, q) = quotient_of x; d = bitlen p - bitlen q
      in if pow2 d \<le> x then d else d - 1)"

definition fl :: "rat \<Rightarrow> pyfloat" where
  "fl x =
     (if x = 0 then 0
      else let u = pow2 (max (binary_exponent \<bar>x\<bar> - 52) (- 1074))
           in of_int (round_half_even (x / u)) * u)"

definition float_of_int :: "int \<Rightarrow> pyfloat" where
  \<comment> \<open>the implicit conversion of an \<^verbatim>\<open>int\<close> operand\<close>
  "float_of_int n = fl (of_int n)"

definition int_truediv :: "int \<Rightarrow> int \<Rightarrow> pyfloat" where
  \<comment> \<open>\<^verbatim>\<open>a / b\<close> on two \<^verbatim>\<open>int\<close>s, \<open>b \<noteq> 0\<close>: the correctly rounded quotient\<close>
  "int_truediv a b = fl (of_int a / of_int b)"

definition float_div :: "pyfloat \<Rightarrow> pyfloat \<Rightarrow> pyfloat" where
  "float_div x y = fl (x / y)"

definition float_sub :: "pyfloat \<Rightarrow> pyfloat \<Rightarrow> pyfloat" where
  "float_sub x y = fl (x - y)"

definition float_mul :: "pyfloat \<Rightarrow> pyfloat \<Rightarrow> pyfloat" where
  "float_mul x y = fl (x * y)"

definition int_of_float :: "pyfloat \<Rightarrow> int" where
  \<comment> \<open>\<^verbatim>\<open>int(x)\<close>: truncation towards zero\<close>
  "int_of_float x = (if 0 \<le> x then \<lfloor>x\<rfloor> else \<lceil>x\<rceil>)"

definition round2 :: "pyfloat \<Rightarrow> pyfloat" where
  \<comment> \<open>\<^verbatim>\<open>round(x, 2)\<close>: the exact value of \<open>x\<close> rounded half-even to two decimals, then
      the float nearest to that decimal\<close>
  "round2 x = fl (of_int (round_half_even (x * 100)) / 100)"

subsection \<open>Records of the earnings API and the daily records derived from them\<close>

record raw_record =
  date :: "string option"
  baseReward :: "int option"
  totalReward :: "int option"
  referralReward :: "int option"

record daily_record =
  daily_date :: "string option"
  daily_base_minutes :: int
  daily_total_minutes :: int
  daily_referral_minutes :: int
  daily_base_hours :: pyfloat
  daily_total_hours :: pyfloat
  cumulative_base_minutes :: int
  cumulative_total_minutes :: int
  cumulative_referral_minutes :: int

definition get_or :: "'a option \<Rightarrow> 'a \<Rightarrow> 'a" where
  \<comment> \<open>\<^verbatim>\<open>d.get(key, default)\<close> on an optional field\<close>
  "get_or v dflt = (case v of None \<Rightarrow> dflt | Some x \<Rightarrow> x)"

definition date_key :: "raw_record \<Rightarrow> string" where
  \<comment> \<open>the sort key \<^verbatim>\<open>lambda x: x.get('date', '')\<close>\<close>
  "date_key x = get_or (date x) ''''"

definition sorted_records :: "raw_record list \<Rightarrow> raw_record list" where
  \<comment> \<open>\<^verbatim>\<open>sorted(uptime_records, key=...)\<close>; Python's sort is stable, as insertion sort is\<close>
  "sorted_records uptime_records = sort_key date_key uptime_records"

text \<open>
  The body of the \<^verbatim>\<open>for\<close> loop, with the three running counters \<^verbatim>\<open>prev_base\<close>,
  \<^verbatim>\<open>prev_total\<close> and \<^verbatim>\<open>prev_referral\<close> as arguments; the result is the list that the
  loop appends to \<^verbatim>\<open>daily_uptime\<close>.
\<close>

fun daily_loop :: "int \<Rightarrow> int \<Rightarrow> int \<Rightarrow> raw_record list \<Rightarrow> daily_record list" where
  "daily_loop prev_base prev_total prev_referral [] = []"
| "daily_loop prev_base prev_total prev_referral (record # rest) =
     (let current_base = get_or (baseReward record) 0;
          current_total = get_or (totalReward record) 0;
          current_referral = get_or (referralReward record) 0;
          daily_base = max 0 (current_base - prev_base);
          daily_total = max 0 (current_total - prev_total);
          daily_ref = max 0 (current_referral - prev_referral)
      in \<lparr> daily_date = date record,
           daily_base_minutes = daily_base,
           daily_total_minutes = daily_total,
           daily_referral_minutes = daily_ref,
           daily_base_hours = round2 (int_truediv daily_base 60),
           daily_total_hours = round2 (int_truediv daily_total 60),
           cumulative_base_minutes = current_base,
           cumulative_total_minutes = current_total,
           cumulative_referral_minutes = current_referral \<rparr>
         # daily_loop current_base current_total current_referral rest)"

definition calculate_daily_uptime :: "raw_record list \<Rightarrow> string \<Rightarrow> daily_record list" where
  "calculate_daily_uptime uptime_records user_id =
     (if uptime_records = [] then []
      else daily_loop 0 0 0 (sorted_records uptime_records))"

text \<open>The three cumulative counters that the loop reads from a record.\<close>

definition current_base_of :: "raw_record \<Rightarrow> int" where
  \<comment> \<open>\<^verbatim>\<open>record.get('baseReward', 0)\<close>\<close>
  "current_base_of r = get_or (baseReward r) 0"

definition current_total_of :: "raw_record \<Rightarrow> int" where
  \<comment> \<open>\<^verbatim>\<open>record.get('totalReward', 0)\<close>\<close>
  "current_total_of r = get_or (totalReward r) 0"

definition current_referral_of :: "raw_record \<Rightarrow> int" where
  \<comment> \<open>\<^verbatim>\<open>record.get('referralReward', 0)\<close>\<close>
  "current_referral_of r = get_or (referralReward r) 0"

subsection \<open>The overview snapshot and the stored documents\<close>

text \<open>
  The overview is a dictionary from field names to integers; it is tested for truthiness,
  so it is kept as an association list: the empty dictionary is \<open>[]\<close>.
\<close>

type_synonym overview = "(string \<times> int) list"

definition dict_get :: "overview \<Rightarrow> string \<Rightarrow> int \<Rightarrow> int" where
  "dict_get d k dflt = (case map_of d k of None \<Rightarrow> dflt | Some v \<Rightarrow> v)"

record time_breakdown =
  bd_days :: int
  bd_hours :: int
  bd_minutes :: int
  total_formatted :: string

record summary_fields =
  today_base_minutes :: int
  today_total_minutes :: int
  today_referral_minutes :: int
  alltime_base_minutes :: int
  alltime_total_minutes :: int
  alltime_referral_minutes :: int
  today_total_hours :: pyfloat
  alltime_total_hours :: pyfloat
  alltime_total_days :: pyfloat
  total_days_tracked :: nat
  participation_time_breakdown :: time_breakdown

record doc_head =
  doc_user_id :: string
  doc_account_name :: string
  doc_pubkey :: string
  doc_timestamp :: nat

text \<open>
  A stored document: the constructor is its \<^verbatim>\<open>"type"\<close> field (\<^verbatim>\<open>"summary"\<close> or
  \<^verbatim>\<open>"daily_uptime"\<close>); a daily document carries the fields of its daily record
  (\<^verbatim>\<open>**daily_record\<close>). The \<^verbatim>\<open>_id\<close> that the server adds is left out.
\<close>

datatype document = Summary doc_head summary_fields | Daily doc_head daily_record

subsection \<open>Formatting integers\<close>

definition digit_char :: "nat \<Rightarrow> char" where
  "digit_char d = char_of (48 + d)"

function str_of_nat :: "nat \<Rightarrow> string" where
  "str_of_nat n =
     (if n < 10 then [digit_char n] else str_of_nat (n div 10) @ [digit_char (n mod 10)])"
  by pat_completeness auto
termination
  by (relation "measure id") auto

declare str_of_nat.simps [simp del]

definition str_of_int :: "int \<Rightarrow> string" where
  \<comment> \<open>\<^verbatim>\<open>f"{i}"\<close>\<close>
  "str_of_int i = (if i < 0 then CHR ''-'' # str_of_nat (nat (- i)) else str_of_nat (nat i))"

subsection \<open>The collection and \<^verbatim>\<open>replace_one(filter, doc, upsert=True)\<close>\<close>

text \<open>
  The collection is the list of its documents in natural order. \<^verbatim>\<open>replace_one\<close> replaces
  the first document that matches the filter, and with \<^verbatim>\<open>upsert=True\<close> inserts the
  document when none matches; its \<^verbatim>\<open>matched_count\<close> is returned with the new collection.
  Loss of the connection is not modelled: every operation reaches the server.
\<close>

fun replace_one :: "(document \<Rightarrow> bool) \<Rightarrow> document \<Rightarrow> document list \<Rightarrow> document list \<times> nat" where
  "replace_one flt doc [] = ([doc], 0)"
| "replace_one flt doc (x # xs) =
     (if flt x then (doc # xs, 1)
      else (case replace_one flt doc xs of (ys, matched_count) \<Rightarrow> (x # ys, matched_count)))"

fun summary_filter :: "string \<Rightarrow> document \<Rightarrow> bool" where
  \<comment> \<open>\<^verbatim>\<open>{"type": "summary", "user_id": user_id}\<close>\<close>
  "summary_filter user_id (Summary h s) = (doc_user_id h = user_id)"
| "summary_filter user_id (Daily h d) = False"

fun daily_filter :: "string \<Rightarrow> string option \<Rightarrow> document \<Rightarrow> bool" where
  \<comment> \<open>\<^verbatim>\<open>{"type": "daily_uptime", "user_id": user_id, "date": daily_record['date']}\<close>\<close>
  "daily_filter user_id dt (Summary h s) = False"
| "daily_filter user_id dt (Daily h d) = (doc_user_id h = user_id \<and> daily_date d = dt)"

text \<open>
  The two partial unique indexes of \<^verbatim>\<open>setup_database\<close>: at most one summary per
  \<^verbatim>\<open>user_id\<close>, at most one daily document per \<^verbatim>\<open>user_id\<close> and \<^verbatim>\<open>date\<close>.
\<close>

fun index_key :: "document \<Rightarrow> string \<times> string option option" where
  "index_key (Summary h s) = (doc_user_id h, None)"
| "index_key (Daily h d) = (doc_user_id h, Some (daily_date d))"

definition unique_indexes :: "document list \<Rightarrow> bool" where
  "unique_indexes coll = distinct (map index_key coll)"

subsection \<open>Events\<close>

text \<open>
  What a run does beyond changing the collection is recorded as a trace: the calls of the
  two fetch functions, the calls of \<^verbatim>\<open>time.sleep\<close> and of \<^verbatim>\<open>save_to_database\<close>, and the
  log lines (their data, not their wording).
\<close>

datatype event =
    LogNoData string
  | LogSummary bool string int int int int
  | LogDaily string nat nat
  | LogSkipping string
  | LogProcessing string nat nat
  | Sleep nat
  | FetchOverview string
  | FetchUptime string string
  | SaveToDatabase
  | LogCompleted string
  | LogRetrying string nat
  | LogFailed string nat

record world =
  collection :: "document list"
  trace :: "event list"

definition emit :: "event \<Rightarrow> world \<Rightarrow> world" where
  "emit e w = w\<lparr>trace := trace w @ [e]\<rparr>"

subsection \<open>\<^verbatim>\<open>save_to_database\<close>\<close>

definition breakdown :: "int \<Rightarrow> time_breakdown" where
  \<comment> \<open>the block \<^verbatim>\<open># Calculate detailed time breakdown\<close>, on \<^verbatim>\<open>alltime_total\<close>\<close>
  "breakdown alltime_total =
     (let total_minutes = alltime_total;
          total_hours = int_truediv total_minutes 60;
          total_days = float_div total_hours 24;
          days = int_of_float total_days;
          remaining_hours = float_sub total_hours (float_of_int (days * 24));
          hours = int_of_float remaining_hours;
          minutes = int_of_float (float_mul (float_sub remaining_hours (float_of_int hours)) 60)
      in \<lparr> bd_days = days, bd_hours = hours, bd_minutes = minutes,
           total_formatted = str_of_int days @ '' days, '' @ str_of_int hours @ '' hours, ''
             @ str_of_int minutes @ '' minutes'' \<rparr>)"

definition summary_doc ::
    "overview \<Rightarrow> daily_record list \<Rightarrow> string \<Rightarrow> string \<Rightarrow> string \<Rightarrow> nat \<Rightarrow> document" where
  "summary_doc overview_data daily_records account_name user_id pubkey timestamp =
     (let today_base = dict_get overview_data ''todayBaseReward'' 0;
          today_total = dict_get overview_data ''todayTotalReward'' 0;
          today_referral = dict_get overview_data ''todayReferralsReward'' 0;
          alltime_base = dict_get overview_data ''allTimeBaseReward'' 0;
          alltime_total = dict_get overview_data ''allTimeTotalReward'' 0;
          alltime_referral = dict_get overview_data ''allTimeReferralsReward'' 0
      in Summary
           \<lparr> doc_user_id = user_id, doc_account_name = account_name, doc_pubkey = pubkey,
             doc_timestamp = timestamp \<rparr>
           \<lparr> today_base_minutes = today_base,
             today_total_minutes = today_total,
             today_referral_minutes = today_referral,
             alltime_base_minutes = alltime_base,
             alltime_total_minutes = alltime_total,
             alltime_referral_minutes = alltime_referral,
             today_total_hours = round2 (int_truediv today_total 60),
             alltime_total_hours = round2 (int_truediv alltime_total 60),
             alltime_total_days = round2 (int_truediv alltime_total (60 * 24)),
             total_days_tracked = (if daily_records \<noteq> [] then length daily_records else 0),
             participation_time_breakdown = breakdown alltime_total \<rparr>)"

definition save_summary ::
    "overview \<Rightarrow> daily_record list \<Rightarrow> string \<Rightarrow> string \<Rightarrow> string \<Rightarrow> nat \<Rightarrow> world \<Rightarrow> world" where
  \<comment> \<open>the branch \<^verbatim>\<open>if overview_data:\<close>\<close>
  "save_summary overview_data daily_records account_name user_id pubkey timestamp w =
     (let doc = summary_doc overview_data daily_records account_name user_id pubkey timestamp;
          alltime_total = dict_get overview_data ''allTimeTotalReward'' 0;
          b = breakdown alltime_total
      in case replace_one (summary_filter user_id) doc (collection w) of
           (coll, matched_count) \<Rightarrow>
             emit (LogSummary (matched_count > 0) account_name alltime_total
                     (bd_days b) (bd_hours b) (bd_minutes b))
               (w\<lparr>collection := coll\<rparr>))"

definition daily_doc :: "daily_record \<Rightarrow> string \<Rightarrow> string \<Rightarrow> string \<Rightarrow> nat \<Rightarrow> document" where
  "daily_doc daily_record account_name user_id pubkey timestamp =
     Daily \<lparr> doc_user_id = user_id, doc_account_name = account_name, doc_pubkey = pubkey,
             doc_timestamp = timestamp \<rparr> daily_record"

definition upsert_daily ::
    "daily_record \<Rightarrow> string \<Rightarrow> string \<Rightarrow> string \<Rightarrow> nat \<Rightarrow> document list \<Rightarrow> document list \<times> nat" where
  \<comment> \<open>one pass of the loop \<^verbatim>\<open>for daily_record in daily_records\<close>: the \<^verbatim>\<open>replace_one\<close>\<close>
  "upsert_daily daily_record account_name user_id pubkey timestamp coll =
     replace_one (daily_filter user_id (daily_date daily_record))
       (daily_doc daily_record account_name user_id pubkey timestamp) coll"

fun save_daily_loop ::
    "daily_record list \<Rightarrow> string \<Rightarrow> string \<Rightarrow> string \<Rightarrow> nat \<Rightarrow> nat \<Rightarrow> nat \<Rightarrow> document list
      \<Rightarrow> document list \<times> nat \<times> nat" where
  "save_daily_loop [] account_name user_id pubkey timestamp saved_count updated_count coll =
     (coll, saved_count, updated_count)"
| "save_daily_loop (daily_record # rest) account_name user_id pubkey timestamp
       saved_count updated_count coll =
     (case upsert_daily daily_record account_name user_id pubkey timestamp coll of
        (coll', matched_count) \<Rightarrow>
          if matched_count > 0
          then save_daily_loop rest account_name user_id pubkey timestamp
                 saved_count (updated_count + 1) coll'
          else save_daily_loop rest account_name user_id pubkey timestamp
                 (saved_count + 1) updated_count coll')"

definition save_daily ::
    "daily_record list \<Rightarrow> string \<Rightarrow> string \<Rightarrow> string \<Rightarrow> nat \<Rightarrow> world \<Rightarrow> world" where
  \<comment> \<open>the branch \<^verbatim>\<open>if daily_records:\<close>\<close>
  "save_daily daily_records account_name user_id pubkey timestamp w =
     (case save_daily_loop daily_records account_name user_id pubkey timestamp 0 0 (collection w) of
        (coll, saved_count, updated_count) \<Rightarrow>
          emit (LogDaily account_name saved_count updated_count) (w\<lparr>collection := coll\<rparr>))"

definition truthy_list :: "'a list option \<Rightarrow> bool" where
  \<comment> \<open>Python's truth value of \<^verbatim>\<open>None\<close>, of a list and of a dictionary\<close>
  "truthy_list v = (case v of None \<Rightarrow> False | Some xs \<Rightarrow> xs \<noteq> [])"

definition save_to_database ::
    "raw_record list option \<Rightarrow> overview option \<Rightarrow> string \<Rightarrow> string \<Rightarrow> string \<Rightarrow> nat
      \<Rightarrow> world \<Rightarrow> world" where
  \<comment> \<open>\<open>now\<close> is the reading of \<^verbatim>\<open>datetime.now()\<close>\<close>
  "save_to_database uptime_data overview_data account_name user_id pubkey now w =
     (let timestamp = now
      in if \<not> truthy_list uptime_data \<and> \<not> truthy_list overview_data
         then emit (LogNoData account_name) w
         else
           let daily_records =
                 (if truthy_list uptime_data
                  then calculate_daily_uptime (get_or uptime_data []) user_id else []);
               w1 = (if truthy_list overview_data
                     then save_summary (get_or overview_data []) daily_records
                            account_name user_id pubkey timestamp w
                     else w)
           in if daily_records \<noteq> []
              then save_daily daily_records account_name user_id pubkey timestamp w1
              else w1)"

subsection \<open>\<^verbatim>\<open>process_account\<close>\<close>

record account =
  acct_name :: "string option"
  acct_jwt_token :: "string option"
  acct_user_id :: "string option"
  acct_pubkey :: "string option"

text \<open>
  The two fetch functions read the network. Their results are given by the environment:
  what \<^verbatim>\<open>fetch_overview_data\<close> and \<^verbatim>\<open>fetch_uptime_data\<close> return in the attempt with a
  given index (\<open>None\<close> for any failure, as in the source), and what the clock reads when
  \<^verbatim>\<open>save_to_database\<close> runs in that attempt.
\<close>

record environment =
  fetch_overview_data :: "string \<Rightarrow> nat \<Rightarrow> overview option"
  fetch_uptime_data :: "string \<Rightarrow> string \<Rightarrow> nat \<Rightarrow> raw_record list option"
  clock :: "nat \<Rightarrow> nat"

definition max_retries :: nat where
  "max_retries = 3"

definition retry_delay :: nat where
  "retry_delay = 10"

definition falsy :: "string option \<Rightarrow> bool" where
  \<comment> \<open>\<^verbatim>\<open>not s\<close> for the result of \<^verbatim>\<open>account.get(key)\<close>: absent or empty\<close>
  "falsy s = (case s of None \<Rightarrow> True | Some x \<Rightarrow> x = [])"

fun attempts :: "environment \<Rightarrow> account \<Rightarrow> nat list \<Rightarrow> world \<Rightarrow> world" where
  "attempts env acct [] w = w"
| "attempts env acct (attempt # rest) w =
     (let name = get_or (acct_name acct) ''Unknown'';
          token = acct_jwt_token acct;
          user_id = acct_user_id acct;
          pubkey = acct_pubkey acct
      in if falsy token \<or> falsy user_id \<or> falsy pubkey
         then emit (LogSkipping name) w
         else
           let tok = get_or token []; uid = get_or user_id []; pk = get_or pubkey [];
               w1 = emit (LogProcessing name (attempt + 1) max_retries) w;
               w2 = (if attempt > 0 then emit (Sleep retry_delay) w1 else w1);
               overview_data = fetch_overview_data env tok attempt;
               w3 = emit (FetchOverview tok) w2;
               uptime_data = fetch_uptime_data env tok pk attempt;
               w4 = emit (FetchUptime tok pk) w3
           in if overview_data \<noteq> None \<or> uptime_data \<noteq> None
              then emit (LogCompleted name)
                     (save_to_database uptime_data overview_data name uid pk (clock env attempt)
                        (emit SaveToDatabase w4))
              else attempts env acct rest
                     (if attempt < max_retries - 1
                      then emit (LogRetrying name retry_delay) w4
                      else emit (LogFailed name max_retries) w4))"

definition process_account :: "environment \<Rightarrow> account \<Rightarrow> world \<Rightarrow> world" where
  \<comment> \<open>\<^verbatim>\<open>for attempt in range(max_retries)\<close>\<close>
  "process_account env acct w = attempts env acct [0..<max_retries] w"

subsection \<open>Notions used to state the properties\<close>

text \<open>The type of a stored document.\<close>

fun is_summary :: "document \<Rightarrow> bool" where
  "is_summary (Summary h s) = True"
| "is_summary (Daily h d) = False"

text \<open>
  The events of a trace that are calls (of \<^verbatim>\<open>time.sleep\<close>, of the two fetch functions and
  of \<^verbatim>\<open>save_to_database\<close>), as opposed to log lines.
\<close>

fun is_call :: "event \<Rightarrow> bool" where
  "is_call (Sleep n) = True"
| "is_call (FetchOverview t) = True"
| "is_call (FetchUptime t p) = True"
| "is_call SaveToDatabase = True"
| "is_call e = False"

definition calls :: "event list \<Rightarrow> event list" where
  "calls t = filter is_call t"

text \<open>
  What attempt number \<open>attempt\<close> of \<^verbatim>\<open>process_account\<close> fetches, its test
  \<^verbatim>\<open>overview_data is not None or uptime_data is not None\<close>, its call of
  \<^verbatim>\<open>save_to_database\<close>, and the two fetch calls of one attempt.
\<close>

definition fetched_overview :: "environment \<Rightarrow> account \<Rightarrow> nat \<Rightarrow> overview option" where
  "fetched_overview env acct attempt =
     fetch_overview_data env (get_or (acct_jwt_token acct) []) attempt"

definition fetched_uptime :: "environment \<Rightarrow> account \<Rightarrow> nat \<Rightarrow> raw_record list option" where
  "fetched_uptime env acct attempt =
     fetch_uptime_data env (get_or (acct_jwt_token acct) []) (get_or (acct_pubkey acct) []) attempt"

definition attempt_succeeds :: "environment \<Rightarrow> account \<Rightarrow> nat \<Rightarrow> bool" where
  "attempt_succeeds env acct attempt =
     (fetched_overview env acct attempt \<noteq> None \<or> fetched_uptime env acct attempt \<noteq> None)"

definition persisted :: "environment \<Rightarrow> account \<Rightarrow> nat \<Rightarrow> world \<Rightarrow> world" where
  "persisted env acct attempt w =
     save_to_database (fetched_uptime env acct attempt) (fetched_overview env acct attempt)
       (get_or (acct_name acct) ''Unknown'') (get_or (acct_user_id acct) [])
       (get_or (acct_pubkey acct) []) (clock env attempt) w"

definition fetch_calls :: "account \<Rightarrow> event list" where
  "fetch_calls acct =
     [FetchOverview (get_or (acct_jwt_token acct) []),
      FetchUptime (get_or (acct_jwt_token acct) []) (get_or (acct_pubkey acct) [])]"

subsection \<open>Concrete inputs\<close>

text \<open>
  The example of the specification: three records out of date order, with the cumulative
  totals 100, 180 and 250; the same with all three counters; and a sequence whose counters
  regress on the second day.
\<close>

definition example_records :: "raw_record list" where
  "example_records =
     [\<lparr>date = Some ''01'', baseReward = None, totalReward = Some 100, referralReward = None\<rparr>,
      \<lparr>date = Some ''03'', baseReward = None, totalReward = Some 250, referralReward = None\<rparr>,
      \<lparr>date = Some ''02'', baseReward = None, totalReward = Some 180, referralReward = None\<rparr>]"

definition steady_records :: "raw_record list" where
  "steady_records =
     [\<lparr>date = Some ''2024-01-01'', baseReward = Some 80, totalReward = Some 100, referralReward = Some 20\<rparr>,
      \<lparr>date = Some ''2024-01-03'', baseReward = Some 200, totalReward = Some 250, referralReward = Some 50\<rparr>,
      \<lparr>date = Some ''2024-01-02'', baseReward = Some 150, totalReward = Some 180, referralReward = Some 30\<rparr>]"

definition regress_records :: "raw_record list" where
  "regress_records =
     [\<lparr>date = Some ''2024-01-01'', baseReward = Some 90, totalReward = Some 100, referralReward = Some 10\<rparr>,
      \<lparr>date = Some ''2024-01-03'', baseReward = Some 60, totalReward = Some 70, referralReward = Some 10\<rparr>,
      \<lparr>date = Some ''2024-01-02'', baseReward = Some 40, totalReward = Some 50, referralReward = Some 5\<rparr>]"

text \<open>
  A world with an empty collection, two accounts (the second without \<^verbatim>\<open>pubkey\<close>), the
  overview of the specification's example, environments in which the overview arrives in
  the third attempt only or never, one earnings record, and two daily records of one date.
\<close>

definition empty_world :: world where
  "empty_world = \<lparr> collection = [], trace = [] \<rparr>"

definition account_1 :: account where
  "account_1 = \<lparr> acct_name = Some ''Account 1'', acct_jwt_token = Some ''jwt'',
                 acct_user_id = Some ''user-1'', acct_pubkey = Some ''pk-1'' \<rparr>"

definition account_no_pubkey :: account where
  "account_no_pubkey = \<lparr> acct_name = Some ''Account 2'', acct_jwt_token = Some ''jwt'',
                 acct_user_id = Some ''user-2'', acct_pubkey = None \<rparr>"

definition example_overview :: overview where
  "example_overview = [(''allTimeTotalReward'', 1500)]"

definition third_time_lucky :: environment where
  "third_time_lucky =
     \<lparr> fetch_overview_data = (\<lambda>token attempt. if attempt = 2 then Some example_overview else None),
       fetch_uptime_data = (\<lambda>token pubkey attempt. None),
       clock = (\<lambda>attempt. 1000 + attempt) \<rparr>"

definition never_answers :: environment where
  "never_answers =
     \<lparr> fetch_overview_data = (\<lambda>token attempt. None),
       fetch_uptime_data = (\<lambda>token pubkey attempt. None),
       clock = (\<lambda>attempt. 1000 + attempt) \<rparr>"

definition one_record :: "raw_record list" where
  "one_record =
     [\<lparr>date = Some ''2024-01-01'', baseReward = Some 60, totalReward = Some 120, referralReward = Some 60\<rparr>]"

definition old_daily :: daily_record where
  "old_daily =
     \<lparr> daily_date = Some ''2024-01-01'', daily_base_minutes = 60, daily_total_minutes = 120,
       daily_referral_minutes = 60, daily_base_hours = 1, daily_total_hours = 2,
       cumulative_base_minutes = 60, cumulative_total_minutes = 120,
       cumulative_referral_minutes = 60 \<rparr>"

definition new_daily :: daily_record where
  "new_daily =
     \<lparr> daily_date = Some ''2024-01-01'', daily_base_minutes = 90, daily_total_minutes = 150,
       daily_referral_minutes = 60, daily_base_hours = 3 / 2, daily_total_hours = 5 / 2,
       cumulative_base_minutes = 90, cumulative_total_minutes = 150,
       cumulative_referral_minutes = 60 \<rparr>"

section \<open>Properties of \<^verbatim>\<open>calculate_daily_uptime\<close>\<close>

lemma length_daily_loop: "length (daily_loop pb pt pr rs) = length rs"
  by (induction rs arbitrary: pb pt pr) (simp_all add: Let_def)

lemma daily_loop_fields:
  "map daily_date (daily_loop pb pt pr rs) = map date rs"
  "map cumulative_base_minutes (daily_loop pb pt pr rs) = map current_base_of rs"
  "map cumulative_total_minutes (daily_loop pb pt pr rs) = map current_total_of rs"
  "map cumulative_referral_minutes (daily_loop pb pt pr rs) = map current_referral_of rs"
  by (induction rs arbitrary: pb pt pr)
     (simp_all add: Let_def current_base_of_def current_total_of_def current_referral_of_def)

text \<open>
  Each delta is the clamped difference to the record before it in the list, the first one
  to the initial value of the running counter.
\<close>

lemma nth_daily_loop:
  assumes "i < length rs"
  shows "daily_base_minutes (daily_loop pb pt pr rs ! i) =
           max 0 (current_base_of (rs ! i) - (if i = 0 then pb else current_base_of (rs ! (i - 1))))"
    and "daily_total_minutes (daily_loop pb pt pr rs ! i) =
           max 0 (current_total_of (rs ! i) - (if i = 0 then pt else current_total_of (rs ! (i - 1))))"
    and "daily_referral_minutes (daily_loop pb pt pr rs ! i) =
           max 0 (current_referral_of (rs ! i)
                    - (if i = 0 then pr else current_referral_of (rs ! (i - 1))))"
  using assms
proof (induction rs arbitrary: i pb pt pr)
  case Nil
  { case 1 then show ?case by simp }
  { case 2 then show ?case by simp }
  { case 3 then show ?case by simp }
next
  case (Cons r rs)
  { case 1 then show ?case using Cons.IH(1)[of "i - 1"]
      by (cases i) (auto simp: Let_def current_base_of_def nth_Cons') }
  { case 2 then show ?case using Cons.IH(2)[of "i - 1"]
      by (cases i) (auto simp: Let_def current_total_of_def nth_Cons') }
  { case 3 then show ?case using Cons.IH(3)[of "i - 1"]
      by (cases i) (auto simp: Let_def current_referral_of_def nth_Cons') }
qed

text \<open>
  On a non-decreasing run that starts at or above the running counter, the sum of the deltas
  telescopes.
\<close>

lemma sum_daily_loop:
  "sorted (pb # map current_base_of rs) \<Longrightarrow>
     sum_list (map daily_base_minutes (daily_loop pb pt pr rs))
       = last (pb # map current_base_of rs) - pb"
  "sorted (pt # map current_total_of rs) \<Longrightarrow>
     sum_list (map daily_total_minutes (daily_loop pb pt pr rs))
       = last (pt # map current_total_of rs) - pt"
  "sorted (pr # map current_referral_of rs) \<Longrightarrow>
     sum_list (map daily_referral_minutes (daily_loop pb pt pr rs))
       = last (pr # map current_referral_of rs) - pr"
proof (induction rs arbitrary: pb pt pr)
  case Nil
  { case 1 then show ?case by simp }
  { case 2 then show ?case by simp }
  { case 3 then show ?case by simp }
next
  case (Cons r rs)
  { case 1 then show ?case using Cons.IH(1)[of "current_base_of r"]
      by (auto simp: Let_def current_base_of_def) }
  { case 2 then show ?case using Cons.IH(2)[of "current_total_of r"]
      by (auto simp: Let_def current_total_of_def) }
  { case 3 then show ?case using Cons.IH(3)[of "current_referral_of r"]
      by (auto simp: Let_def current_referral_of_def) }
qed

lemma sorted_records_nonempty:
  "uptime_records \<noteq> [] \<Longrightarrow> \<exists>r rs. sorted_records uptime_records = r # rs"
  by (metis length_sort sorted_records_def length_0_conv neq_Nil_conv)

lemma calculate_eq_loop:
  "calculate_daily_uptime uptime_records user_id = daily_loop 0 0 0 (sorted_records uptime_records)"
  by (simp add: calculate_daily_uptime_def sorted_records_def)

lemma sorted_example_records:
  "sorted_records example_records =
     [\<lparr>date = Some ''01'', baseReward = None, totalReward = Some 100, referralReward = None\<rparr>,
      \<lparr>date = Some ''02'', baseReward = None, totalReward = Some 180, referralReward = None\<rparr>,
      \<lparr>date = Some ''03'', baseReward = None, totalReward = Some 250, referralReward = None\<rparr>]"
  by code_simp

lemma sorted_steady_records:
  "sorted_records steady_records =
     [\<lparr>date = Some ''2024-01-01'', baseReward = Some 80, totalReward = Some 100, referralReward = Some 20\<rparr>,
      \<lparr>date = Some ''2024-01-02'', baseReward = Some 150, totalReward = Some 180, referralReward = Some 30\<rparr>,
      \<lparr>date = Some ''2024-01-03'', baseReward = Some 200, totalReward = Some 250, referralReward = Some 50\<rparr>]"
  by code_simp

lemma sorted_regress_records:
  "sorted_records regress_records =
     [\<lparr>date = Some ''2024-01-01'', baseReward = Some 90, totalReward = Some 100, referralReward = Some 10\<rparr>,
      \<lparr>date = Some ''2024-01-02'', baseReward = Some 40, totalReward = Some 50, referralReward = Some 5\<rparr>,
      \<lparr>date = Some ''2024-01-03'', baseReward = Some 60, totalReward = Some 70, referralReward = Some 10\<rparr>]"
  by code_simp

text \<open>
  Claim C1, as the specification states it: for a non-decreasing sequence of cumulative
  values \<open>c_1 \<le> \<dots> \<le> c_n\<close> the deltas sum to \<open>c_n - c_1\<close>. The code does not do that: the
  running counters start at 0, so the first delta is \<open>c_1\<close> itself. On the specification's
  own example (totals 100, 180, 250) the deltas are 100, 80 and 70 and sum to 250, while
  \<open>c_n - c_1 = 150\<close>.
\<close>

theorem deltas_sum_counterexample:
  "sorted (map current_total_of (sorted_records example_records))
   \<and> sum_list (map daily_total_minutes (calculate_daily_uptime example_records ''u''))
       \<noteq> current_total_of (last (sorted_records example_records))
           - current_total_of (hd (sorted_records example_records))"
proof -
  have "sum_list (map daily_total_minutes (calculate_daily_uptime example_records ''u'')) = 250"
    by code_simp
  then show ?thesis
    by (simp add: sorted_example_records current_total_of_def get_or_def)
qed

text \<open>
  Claim C1, amended: for a non-empty input whose cumulative values of a counter are
  non-decreasing in sorted order, \<open>c_1 \<le> \<dots> \<le> c_n\<close>, the daily deltas of that counter sum
  to \<open>c_n - c_1 + max 0 c_1\<close>: the baseline before the first record is 0, so for \<open>c_1 \<ge> 0\<close>
  the sum is \<open>c_n\<close>. This holds for each of the three counters on its own.
\<close>

theorem deltas_sum_baseline_zero:
  assumes "uptime_records \<noteq> []"
  shows "(sorted (map current_base_of (sorted_records uptime_records)) \<longrightarrow>
            sum_list (map daily_base_minutes (calculate_daily_uptime uptime_records user_id)) =
              current_base_of (last (sorted_records uptime_records))
                - current_base_of (hd (sorted_records uptime_records))
                + max 0 (current_base_of (hd (sorted_records uptime_records))))
       \<and> (sorted (map current_total_of (sorted_records uptime_records)) \<longrightarrow>
            sum_list (map daily_total_minutes (calculate_daily_uptime uptime_records user_id)) =
              current_total_of (last (sorted_records uptime_records))
                - current_total_of (hd (sorted_records uptime_records))
                + max 0 (current_total_of (hd (sorted_records uptime_records))))
       \<and> (sorted (map current_referral_of (sorted_records uptime_records)) \<longrightarrow>
            sum_list (map daily_referral_minutes (calculate_daily_uptime uptime_records user_id)) =
              current_referral_of (last (sorted_records uptime_records))
                - current_referral_of (hd (sorted_records uptime_records))
                + max 0 (current_referral_of (hd (sorted_records uptime_records))))"
proof -
  from assms obtain r rs where s: "sorted_records uptime_records = r # rs"
    using sorted_records_nonempty by blast
  have c: "calculate_daily_uptime uptime_records user_id = daily_loop 0 0 0 (r # rs)"
    by (simp add: calculate_eq_loop s)
  have l: "\<And>f. last (f r # map f rs) = f (last (r # rs))"
    by (metis last_map list.simps(9) list.distinct(1))
  have b: "sorted (map current_base_of (r # rs)) \<Longrightarrow>
      sum_list (map daily_base_minutes (daily_loop 0 0 0 (r # rs))) =
      current_base_of (last (r # rs)) - current_base_of r + max 0 (current_base_of r)"
    using sum_daily_loop(1)[of "current_base_of r" rs] l[of current_base_of]
    by (simp add: Let_def current_base_of_def del: last.simps)
  have t: "sorted (map current_total_of (r # rs)) \<Longrightarrow>
      sum_list (map daily_total_minutes (daily_loop 0 0 0 (r # rs))) =
      current_total_of (last (r # rs)) - current_total_of r + max 0 (current_total_of r)"
    using sum_daily_loop(2)[of "current_total_of r" rs] l[of current_total_of]
    by (simp add: Let_def current_total_of_def del: last.simps)
  have f: "sorted (map current_referral_of (r # rs)) \<Longrightarrow>
      sum_list (map daily_referral_minutes (daily_loop 0 0 0 (r # rs))) =
      current_referral_of (last (r # rs)) - current_referral_of r
        + max 0 (current_referral_of r)"
    using sum_daily_loop(3)[of "current_referral_of r" rs] l[of current_referral_of]
    by (simp add: Let_def current_referral_of_def del: last.simps)
  show ?thesis
    unfolding c s using b t f by simp
qed

theorem deltas_sum_witness:
  "steady_records \<noteq> []
   \<and> sorted (map current_base_of (sorted_records steady_records))
   \<and> sorted (map current_total_of (sorted_records steady_records))
   \<and> sorted (map current_referral_of (sorted_records steady_records))
   \<and> sum_list (map daily_base_minutes (calculate_daily_uptime steady_records ''u'')) = 200
   \<and> sum_list (map daily_total_minutes (calculate_daily_uptime steady_records ''u'')) = 250
   \<and> sum_list (map daily_referral_minutes (calculate_daily_uptime steady_records ''u'')) = 50"
proof -
  have h: "steady_records \<noteq> []" by (simp add: steady_records_def)
  have s: "sorted (map current_base_of (sorted_records steady_records))"
    "sorted (map current_total_of (sorted_records steady_records))"
    "sorted (map current_referral_of (sorted_records steady_records))"
    by (simp_all add: sorted_steady_records current_base_of_def current_total_of_def
        current_referral_of_def get_or_def)
  have v: "current_base_of (last (sorted_records steady_records))
                - current_base_of (hd (sorted_records steady_records))
                + max 0 (current_base_of (hd (sorted_records steady_records))) = 200"
    "current_total_of (last (sorted_records steady_records))
                - current_total_of (hd (sorted_records steady_records))
                + max 0 (current_total_of (hd (sorted_records steady_records))) = 250"
    "current_referral_of (last (sorted_records steady_records))
                - current_referral_of (hd (sorted_records steady_records))
                + max 0 (current_referral_of (hd (sorted_records steady_records))) = 50"
    by (simp_all add: sorted_steady_records current_base_of_def current_total_of_def
        current_referral_of_def get_or_def)
  from deltas_sum_baseline_zero[OF h, of "''u''"] s v h show ?thesis by simp
qed

text \<open>
  Claim C2: no delta is negative; a record whose cumulative counter is below that of the
  record before it in sorted order gets the delta 0 for that counter; and the delta of the
  record after record \<open>i\<close> is taken against the counter of record \<open>i\<close> itself, whether or
  not record \<open>i\<close> regressed.
\<close>

theorem regression_clamped:
  assumes "i < length uptime_records"
  shows "0 \<le> daily_base_minutes (calculate_daily_uptime uptime_records user_id ! i)
       \<and> 0 \<le> daily_total_minutes (calculate_daily_uptime uptime_records user_id ! i)
       \<and> 0 \<le> daily_referral_minutes (calculate_daily_uptime uptime_records user_id ! i)
       \<and> (0 < i \<and> current_base_of (sorted_records uptime_records ! i)
                    < current_base_of (sorted_records uptime_records ! (i - 1)) \<longrightarrow>
            daily_base_minutes (calculate_daily_uptime uptime_records user_id ! i) = 0)
       \<and> (0 < i \<and> current_total_of (sorted_records uptime_records ! i)
                    < current_total_of (sorted_records uptime_records ! (i - 1)) \<longrightarrow>
            daily_total_minutes (calculate_daily_uptime uptime_records user_id ! i) = 0)
       \<and> (0 < i \<and> current_referral_of (sorted_records uptime_records ! i)
                    < current_referral_of (sorted_records uptime_records ! (i - 1)) \<longrightarrow>
            daily_referral_minutes (calculate_daily_uptime uptime_records user_id ! i) = 0)
       \<and> (Suc i < length uptime_records \<longrightarrow>
            daily_base_minutes (calculate_daily_uptime uptime_records user_id ! Suc i) =
              max 0 (current_base_of (sorted_records uptime_records ! Suc i)
                       - current_base_of (sorted_records uptime_records ! i))
          \<and> daily_total_minutes (calculate_daily_uptime uptime_records user_id ! Suc i) =
              max 0 (current_total_of (sorted_records uptime_records ! Suc i)
                       - current_total_of (sorted_records uptime_records ! i))
          \<and> daily_referral_minutes (calculate_daily_uptime uptime_records user_id ! Suc i) =
              max 0 (current_referral_of (sorted_records uptime_records ! Suc i)
                       - current_referral_of (sorted_records uptime_records ! i)))"
proof -
  have len: "length (sorted_records uptime_records) = length uptime_records"
    by (simp add: sorted_records_def)
  have i: "i < length (sorted_records uptime_records)"
    using assms len by simp
  show ?thesis
    unfolding calculate_eq_loop
    using nth_daily_loop[OF i, of 0 0 0]
      nth_daily_loop[of "Suc i" "sorted_records uptime_records" 0 0 0] len
    by auto
qed

theorem regression_clamped_witness:
  "(1::nat) < length regress_records
   \<and> current_base_of (sorted_records regress_records ! 1)
       < current_base_of (sorted_records regress_records ! (1 - 1))
   \<and> current_total_of (sorted_records regress_records ! 1)
       < current_total_of (sorted_records regress_records ! (1 - 1))
   \<and> current_referral_of (sorted_records regress_records ! 1)
       < current_referral_of (sorted_records regress_records ! (1 - 1))
   \<and> Suc 1 < length regress_records
   \<and> daily_base_minutes (calculate_daily_uptime regress_records ''u'' ! 1) = 0
   \<and> daily_total_minutes (calculate_daily_uptime regress_records ''u'' ! 1) = 0
   \<and> daily_referral_minutes (calculate_daily_uptime regress_records ''u'' ! 1) = 0
   \<and> daily_base_minutes (calculate_daily_uptime regress_records ''u'' ! Suc 1) = 20
   \<and> daily_total_minutes (calculate_daily_uptime regress_records ''u'' ! Suc 1) = 20
   \<and> daily_referral_minutes (calculate_daily_uptime regress_records ''u'' ! Suc 1) = 5"
proof -
  have h: "(1::nat) < length regress_records" by (simp add: regress_records_def)
  have h2: "Suc 1 < length regress_records" by (simp add: regress_records_def)
  have r: "current_base_of (sorted_records regress_records ! 1)
       < current_base_of (sorted_records regress_records ! (1 - 1))"
    "current_total_of (sorted_records regress_records ! 1)
       < current_total_of (sorted_records regress_records ! (1 - 1))"
    "current_referral_of (sorted_records regress_records ! 1)
       < current_referral_of (sorted_records regress_records ! (1 - 1))"
    by (simp_all add: sorted_regress_records current_base_of_def current_total_of_def
        current_referral_of_def get_or_def)
  have n: "max 0 (current_base_of (sorted_records regress_records ! Suc 1)
                       - current_base_of (sorted_records regress_records ! 1)) = 20"
    "max 0 (current_total_of (sorted_records regress_records ! Suc 1)
                       - current_total_of (sorted_records regress_records ! 1)) = 20"
    "max 0 (current_referral_of (sorted_records regress_records ! Suc 1)
                       - current_referral_of (sorted_records regress_records ! 1)) = 5"
    by (simp_all add: sorted_regress_records current_base_of_def current_total_of_def
        current_referral_of_def get_or_def)
  from regression_clamped[OF h, of "''u''"] h h2 r n show ?thesis by simp
qed

text \<open>
  Claim C3: the records are processed in the order of a stable sort by date (the sorted list
  is ordered by the key, is a permutation of the input, and keeps the records of every
  single key in their input order); no record is dropped or merged, since the dates and the
  cumulative values of the output are those of the sorted input, record by record, and the
  output is as long as the input; the empty input gives the empty output.
\<close>

theorem stable_sort_no_dedup:
  "sorted (map date_key (sorted_records uptime_records))
   \<and> mset (sorted_records uptime_records) = mset uptime_records
   \<and> (\<forall>k. filter (\<lambda>r. date_key r = k) (sorted_records uptime_records)
            = filter (\<lambda>r. date_key r = k) uptime_records)
   \<and> map daily_date (calculate_daily_uptime uptime_records user_id)
        = map date (sorted_records uptime_records)
   \<and> map cumulative_base_minutes (calculate_daily_uptime uptime_records user_id)
        = map current_base_of (sorted_records uptime_records)
   \<and> map cumulative_total_minutes (calculate_daily_uptime uptime_records user_id)
        = map current_total_of (sorted_records uptime_records)
   \<and> map cumulative_referral_minutes (calculate_daily_uptime uptime_records user_id)
        = map current_referral_of (sorted_records uptime_records)
   \<and> length (calculate_daily_uptime uptime_records user_id) = length uptime_records
   \<and> calculate_daily_uptime [] user_id = []"
proof -
  have "length (calculate_daily_uptime uptime_records user_id) = length uptime_records"
    by (simp add: calculate_eq_loop length_daily_loop sorted_records_def)
  moreover have "calculate_daily_uptime [] user_id = []"
    by (simp add: calculate_daily_uptime_def)
  moreover have "\<forall>k. filter (\<lambda>r. date_key r = k) (sorted_records uptime_records)
            = filter (\<lambda>r. date_key r = k) uptime_records"
    by (simp add: sorted_records_def sort_key_stable)
  moreover have "sorted (map date_key (sorted_records uptime_records))"
    by (simp add: sorted_records_def)
  moreover have "mset (sorted_records uptime_records) = mset uptime_records"
    by (simp add: sorted_records_def)
  ultimately show ?thesis
    by (simp add: calculate_eq_loop daily_loop_fields)
qed

text \<open>With pairwise distinct keys, a list has one sorted arrangement.\<close>

lemma filter_distinct_key:
  "distinct (map f xs) \<Longrightarrow> k \<in> set xs \<Longrightarrow> filter (\<lambda>x. f k = f x) xs = [k]"
proof (induction xs)
  case Nil
  then show ?case by simp
next
  case (Cons x xs)
  show ?case
  proof (cases "k = x")
    case True
    have "filter (\<lambda>y. f x = f y) xs = []"
      using Cons.prems(1) by (auto simp: filter_empty_conv)
    with True show ?thesis by simp
  next
    case False
    with Cons.prems have k: "k \<in> set xs" and d: "distinct (map f xs)" and n: "f x \<notin> f ` set xs"
      by auto
    from k n have "f k \<noteq> f x" by (metis imageI)
    with Cons.IH[OF d k] show ?thesis by simp
  qed
qed

lemma sort_key_permutation:
  assumes m: "mset xs = mset ys" and d: "distinct (map f xs)"
  shows "sort_key f xs = sort_key f ys"
proof (rule properties_for_sort_key)
  show "mset (sort_key f ys) = mset xs" using m by simp
  show "sorted (map f (sort_key f ys))" by simp
next
  fix k assume "k \<in> set (sort_key f ys)"
  then have ky: "k \<in> set ys" by simp
  then have kx: "k \<in> set xs" using m by (metis set_mset_mset)
  have "mset (map f xs) = mset (map f ys)" using m by (metis mset_map)
  then have dy: "distinct (map f ys)" using d by (metis mset_eq_imp_distinct_iff)
  have "filter (\<lambda>x. f k = f x) (sort_key f ys) = filter (\<lambda>x. f k = f x) ys"
    using sort_key_stable[of f "f k" ys] by (simp add: eq_commute)
  also have "\<dots> = [k]" by (rule filter_distinct_key[OF dy ky])
  also have "\<dots> = filter (\<lambda>x. f k = f x) xs" by (rule filter_distinct_key[OF d kx, symmetric])
  finally show "filter (\<lambda>x. f k = f x) (sort_key f ys) = filter (\<lambda>x. f k = f x) xs" .
qed

text \<open>
  Claim C4: two inputs that are permutations of each other, with pairwise distinct dates,
  give the same output. The date of a record is the key it is sorted by,
  \<^verbatim>\<open>x.get('date', '')\<close>: a record without a date counts as dated \<^verbatim>\<open>''\<close>.
\<close>

theorem order_independent:
  assumes "mset xs = mset ys" and "distinct (map date_key xs)"
  shows "calculate_daily_uptime xs user_id = calculate_daily_uptime ys user_id"
  using sort_key_permutation[OF assms] by (simp add: calculate_eq_loop sorted_records_def)

theorem order_independent_witness:
  "mset example_records = mset (rev example_records)
   \<and> distinct (map date_key example_records)
   \<and> example_records \<noteq> rev example_records
   \<and> calculate_daily_uptime example_records ''u''
       = calculate_daily_uptime (rev example_records) ''u''"
proof -
  have m: "mset example_records = mset (rev example_records)" by simp
  have d: "distinct (map date_key example_records)"
    by (simp add: example_records_def date_key_def get_or_def)
  have n: "example_records \<noteq> rev example_records"
    by (simp add: example_records_def)
  from order_independent[OF m d, of "''u''"] m d n show ?thesis by simp
qed

section \<open>The time breakdown of \<^verbatim>\<open>save_to_database\<close>\<close>

lemma breakdown_1500:
  "breakdown 1500 = \<lparr> bd_days = 1, bd_hours = 1, bd_minutes = 0,
                       total_formatted = ''1 days, 1 hours, 0 minutes'' \<rparr>"
  by code_simp

lemma breakdown_61:
  "breakdown 61 = \<lparr> bd_days = 0, bd_hours = 1, bd_minutes = 0,
                     total_formatted = ''0 days, 1 hours, 0 minutes'' \<rparr>"
  by code_simp

text \<open>
  Claim C5: the breakdown of \<^verbatim>\<open>allTimeTotalReward\<close> is \<open>total div 1440\<close> days,
  \<open>(total mod 1440) div 60\<close> hours and \<open>total mod 60\<close> minutes. The code computes it in
  floating point (\<^verbatim>\<open>total_minutes / 60\<close>, \<^verbatim>\<open>total_hours / 24\<close>) and truncates
  \<^verbatim>\<open>(remaining_hours - hours) * 60\<close>. The example of the claim comes out right: 1500
  minutes give 1 day, 1 hour, 0 minutes. But 61 minutes give 0 days, 1 hour and 0 minutes
  where \<open>61 mod 60 = 1\<close>: the float nearest to \<open>61 / 60\<close> is below it, so the product
  with 60 is just below 1 and \<^verbatim>\<open>int\<close> cuts it to 0.
\<close>

theorem breakdown_loses_a_minute:
  "bd_days (breakdown 1500) = 1 \<and> bd_hours (breakdown 1500) = 1 \<and> bd_minutes (breakdown 1500) = 0
   \<and> bd_days (breakdown 61) = 61 div 1440
   \<and> bd_hours (breakdown 61) = 61 mod 1440 div 60
   \<and> bd_minutes (breakdown 61) = 0
   \<and> (61::int) mod 60 = 1
   \<and> total_formatted (breakdown 61) = ''0 days, 1 hours, 0 minutes''"
  by (simp add: breakdown_61 breakdown_1500)

section \<open>Properties of the upsert\<close>

lemma collection_emit [simp]: "collection (emit e w) = collection w"
  by (simp add: emit_def)

lemma trace_emit [simp]: "trace (emit e w) = trace w @ [e]"
  by (simp add: emit_def)

lemma fst_replace_one_Cons:
  "fst (replace_one flt doc (x # xs)) = (if flt x then doc # xs else x # fst (replace_one flt doc xs))"
  by (simp split: prod.splits)

lemma replace_one_member: "doc \<in> set (fst (replace_one flt doc coll))"
  by (induction coll) (auto split: prod.splits)

lemma replace_one_filter_other:
  assumes "\<And>x. flt x \<Longrightarrow> \<not> P x" and "\<not> P doc"
  shows "filter P (fst (replace_one flt doc coll)) = filter P coll"
  using assms by (induction coll) (auto split: prod.splits)

lemma replace_one_keeps:
  "x \<in> set coll \<Longrightarrow> \<not> flt x \<Longrightarrow> x \<in> set (fst (replace_one flt doc coll))"
  by (induction coll) (auto split: prod.splits)

lemma replace_one_twice:
  "flt doc \<Longrightarrow>
     replace_one flt doc (fst (replace_one flt doc coll)) = (fst (replace_one flt doc coll), 1)"
  by (induction coll) (auto split: prod.splits)

lemma replace_one_keys:
  assumes "\<And>x. flt x \<longleftrightarrow> key x = key doc"
  shows "set (map key (fst (replace_one flt doc coll))) = insert (key doc) (set (map key coll))"
  using assms by (induction coll) (auto split: prod.splits)

lemma replace_one_unique:
  assumes "\<And>x. flt x \<longleftrightarrow> key x = key doc" and "distinct (map key coll)"
  shows "filter flt (fst (replace_one flt doc coll)) = [doc]
         \<and> distinct (map key (fst (replace_one flt doc coll)))"
  using assms(2)
proof (induction coll)
  case Nil
  then show ?case using assms(1) by simp
next
  case (Cons x xs)
  show ?case
  proof (cases "flt x")
    case True
    then have k: "key x = key doc" using assms(1) by simp
    with Cons.prems have "\<forall>y \<in> set xs. key y \<noteq> key doc"
      by (metis distinct.simps(2) image_eqI list.simps(9) set_map)
    then have "filter (\<lambda>y. key y = key doc) xs = []" by (simp add: filter_empty_conv)
    with True k Cons.prems show ?thesis using assms(1) by simp
  next
    case False
    then have nk: "key x \<noteq> key doc" using assms(1) by simp
    from Cons.prems have d: "distinct (map key xs)" and n: "key x \<notin> set (map key xs)"
      by simp_all
    from n nk have "key x \<notin> set (map key (fst (replace_one flt doc xs)))"
      using replace_one_keys[of flt key doc xs] assms(1) by simp
    with Cons.IH[OF d] False show ?thesis
      by (simp add: fst_replace_one_Cons del: replace_one.simps)
  qed
qed

lemma daily_filter_key:
  "daily_filter user_id (daily_date d) x
     \<longleftrightarrow> index_key x = index_key (daily_doc d account_name user_id pubkey timestamp)"
  by (cases x) (auto simp: daily_doc_def)

lemma daily_filter_doc:
  "daily_filter user_id (daily_date d) (daily_doc d account_name user_id pubkey timestamp)"
  by (simp add: daily_doc_def)

text \<open>
  Claim C7: the daily upsert applied a second time with the same document matches the
  document written the first time and leaves the collection as it was after the first
  application, with the document in it. Under the unique indexes of \<^verbatim>\<open>setup_database\<close>
  the collection then holds exactly one document for the key (\<^verbatim>\<open>daily_uptime\<close>,
  \<^verbatim>\<open>user_id\<close>, \<^verbatim>\<open>date\<close>), equal to the document written, after one application as
  after two, and the indexes still hold. A later write for the same key with any other
  content leaves exactly that later document: the replacement is of the whole document.
\<close>

theorem upsert_daily_idempotent:
  "upsert_daily d n u p t (fst (upsert_daily d n u p t coll))
     = (fst (upsert_daily d n u p t coll), 1)
   \<and> daily_doc d n u p t \<in> set (fst (upsert_daily d n u p t coll))
   \<and> (unique_indexes coll \<longrightarrow>
        filter (daily_filter u (daily_date d)) (fst (upsert_daily d n u p t coll))
          = [daily_doc d n u p t]
        \<and> unique_indexes (fst (upsert_daily d n u p t coll))
        \<and> filter (daily_filter u (daily_date d))
             (fst (upsert_daily d n u p t (fst (upsert_daily d n u p t coll))))
          = [daily_doc d n u p t]
        \<and> (daily_date d' = daily_date d \<longrightarrow>
             filter (daily_filter u (daily_date d))
               (fst (upsert_daily d' n' u p' t' (fst (upsert_daily d n u p t coll))))
             = [daily_doc d' n' u p' t']))"
proof -
  have twice: "upsert_daily d n u p t (fst (upsert_daily d n u p t coll))
     = (fst (upsert_daily d n u p t coll), 1)"
    unfolding upsert_daily_def by (rule replace_one_twice) (rule daily_filter_doc)
  have mem: "daily_doc d n u p t \<in> set (fst (upsert_daily d n u p t coll))"
    unfolding upsert_daily_def by (rule replace_one_member)
  have one: "\<And>c e m q s. unique_indexes c \<Longrightarrow>
        filter (daily_filter u (daily_date e)) (fst (upsert_daily e m u q s c)) = [daily_doc e m u q s]
        \<and> unique_indexes (fst (upsert_daily e m u q s c))"
    unfolding upsert_daily_def unique_indexes_def
    by (rule replace_one_unique) (simp_all add: daily_filter_key)
  show ?thesis
  proof (intro conjI impI)
    assume u: "unique_indexes coll"
    show "filter (daily_filter u (daily_date d)) (fst (upsert_daily d n u p t coll))
          = [daily_doc d n u p t]" using one[OF u] by simp
    show u': "unique_indexes (fst (upsert_daily d n u p t coll))" using one[OF u] by simp
    show "filter (daily_filter u (daily_date d))
             (fst (upsert_daily d n u p t (fst (upsert_daily d n u p t coll))))
          = [daily_doc d n u p t]" using one[OF u'] by simp
    assume "daily_date d' = daily_date d"
    then show "filter (daily_filter u (daily_date d))
               (fst (upsert_daily d' n' u p' t' (fst (upsert_daily d n u p t coll))))
             = [daily_doc d' n' u p' t']" using one[OF u', of d' n' p' t'] by simp
  qed (rule twice, rule mem)
qed

theorem upsert_daily_idempotent_witness:
  "unique_indexes []
   \<and> daily_date new_daily = daily_date old_daily
   \<and> fst (upsert_daily old_daily ''Account 1'' ''user-1'' ''pk-1'' 1000
            (fst (upsert_daily old_daily ''Account 1'' ''user-1'' ''pk-1'' 1000 [])))
       = [daily_doc old_daily ''Account 1'' ''user-1'' ''pk-1'' 1000]
   \<and> filter (daily_filter ''user-1'' (daily_date old_daily))
        (fst (upsert_daily new_daily ''Account 1'' ''user-1'' ''pk-1'' 2000
               (fst (upsert_daily old_daily ''Account 1'' ''user-1'' ''pk-1'' 1000 []))))
       = [daily_doc new_daily ''Account 1'' ''user-1'' ''pk-1'' 2000]"
proof -
  have u: "unique_indexes []" by (simp add: unique_indexes_def)
  have e: "daily_date new_daily = daily_date old_daily"
    by (simp add: new_daily_def old_daily_def)
  have f: "fst (upsert_daily old_daily ''Account 1'' ''user-1'' ''pk-1'' 1000 [])
             = [daily_doc old_daily ''Account 1'' ''user-1'' ''pk-1'' 1000]"
    by (simp add: upsert_daily_def)
  from upsert_daily_idempotent[where d = old_daily and n = "''Account 1''" and u = "''user-1''"
      and p = "''pk-1''" and t = 1000 and coll = "[]" and d' = new_daily
      and n' = "''Account 1''" and p' = "''pk-1''" and t' = 2000] u e
  have "fst (upsert_daily old_daily ''Account 1'' ''user-1'' ''pk-1'' 1000
            (fst (upsert_daily old_daily ''Account 1'' ''user-1'' ''pk-1'' 1000 [])))
          = fst (upsert_daily old_daily ''Account 1'' ''user-1'' ''pk-1'' 1000 [])"
    and "filter (daily_filter ''user-1'' (daily_date old_daily))
        (fst (upsert_daily new_daily ''Account 1'' ''user-1'' ''pk-1'' 2000
               (fst (upsert_daily old_daily ''Account 1'' ''user-1'' ''pk-1'' 1000 []))))
       = [daily_doc new_daily ''Account 1'' ''user-1'' ''pk-1'' 2000]"
    by simp_all
  with u e f show ?thesis by simp
qed

section \<open>Properties of \<^verbatim>\<open>save_to_database\<close>\<close>

lemma fst_save_daily_loop:
  "fst (save_daily_loop ds n u p t sc uc coll)
     = foldl (\<lambda>c d. fst (upsert_daily d n u p t c)) coll ds"
  by (induction ds arbitrary: sc uc coll) (auto split: prod.splits)

lemma counts_save_daily_loop:
  "save_daily_loop ds n u p t sc uc coll = (coll', sc', uc') \<Longrightarrow> sc' + uc' = sc + uc + length ds"
  by (induction ds arbitrary: sc uc coll) (auto split: prod.splits if_splits)

lemma upsert_daily_summaries:
  "filter is_summary (fst (upsert_daily d n u p t coll)) = filter is_summary coll"
  unfolding upsert_daily_def
proof (rule replace_one_filter_other)
  fix x assume "daily_filter u (daily_date d) x"
  then show "\<not> is_summary x" by (cases x) simp_all
next
  show "\<not> is_summary (daily_doc d n u p t)" by (simp add: daily_doc_def)
qed

lemma fold_upsert_summaries:
  "filter is_summary (foldl (\<lambda>c d. fst (upsert_daily d n u p t c)) coll ds)
     = filter is_summary coll"
  by (induction ds arbitrary: coll) (simp_all add: upsert_daily_summaries)

lemma upsert_daily_keeps:
  "x \<in> set coll \<Longrightarrow> \<not> daily_filter u (daily_date d) x
     \<Longrightarrow> x \<in> set (fst (upsert_daily d n u p t coll))"
  unfolding upsert_daily_def by (rule replace_one_keeps)

lemma fold_upsert_keeps:
  "x \<in> set coll \<Longrightarrow> \<forall>d \<in> set ds. \<not> daily_filter u (daily_date d) x
     \<Longrightarrow> x \<in> set (foldl (\<lambda>c d. fst (upsert_daily d n u p t c)) coll ds)"
  by (induction ds arbitrary: coll) (simp_all add: upsert_daily_keeps)

lemma fold_upsert_last_write:
  assumes "ds = pre @ d # post" and "daily_date d \<notin> daily_date ` set post"
  shows "daily_doc d n u p t \<in> set (foldl (\<lambda>c e. fst (upsert_daily e n u p t c)) coll ds)"
proof -
  let ?c1 = "foldl (\<lambda>c e. fst (upsert_daily e n u p t c)) coll pre"
  have m: "daily_doc d n u p t \<in> set (fst (upsert_daily d n u p t ?c1))"
    unfolding upsert_daily_def by (rule replace_one_member)
  have "\<forall>e \<in> set post. \<not> daily_filter u (daily_date e) (daily_doc d n u p t)"
    using assms(2) by (auto simp: daily_doc_def)
  from fold_upsert_keeps[OF m this] show ?thesis
    by (simp add: assms(1))
qed

lemma collection_save_summary:
  "collection (save_summary ov ds n u p t w)
     = fst (replace_one (summary_filter u) (summary_doc ov ds n u p t) (collection w))"
  by (simp add: save_summary_def Let_def case_prod_beta)

lemma save_summary_others:
  "filter (\<lambda>x. \<not> is_summary x) (collection (save_summary ov ds n u p t w))
     = filter (\<lambda>x. \<not> is_summary x) (collection w)"
  unfolding collection_save_summary
proof (rule replace_one_filter_other)
  fix x assume "summary_filter u x"
  then show "\<not> \<not> is_summary x" by (cases x) simp_all
next
  show "\<not> \<not> is_summary (summary_doc ov ds n u p t)" by (simp add: summary_doc_def Let_def)
qed

lemma trace_save_summary:
  "\<exists>m a d h mi. trace (save_summary ov ds n u p t w) = trace w @ [LogSummary m n a d h mi]"
  by (simp add: save_summary_def Let_def case_prod_beta)

lemma collection_save_daily:
  "collection (save_daily ds n u p t w)
     = foldl (\<lambda>c d. fst (upsert_daily d n u p t c)) (collection w) ds"
  by (simp add: save_daily_def case_prod_beta fst_save_daily_loop)

lemma trace_save_daily:
  "\<exists>sc uc. trace (save_daily ds n u p t w) = trace w @ [LogDaily n sc uc]
           \<and> sc + uc = length ds"
proof -
  obtain c sc uc where l: "save_daily_loop ds n u p t 0 0 (collection w) = (c, sc, uc)"
    by (metis prod_cases3)
  from counts_save_daily_loop[OF l] have "sc + uc = length ds" by simp
  with l show ?thesis by (simp add: save_daily_def)
qed

lemma calls_append [simp]: "calls (xs @ ys) = calls xs @ calls ys"
  by (simp add: calls_def)

lemma calls_save_summary: "calls (trace (save_summary ov ds n u p t w)) = calls (trace w)"
  by (simp add: save_summary_def Let_def case_prod_beta calls_def)

lemma calls_save_daily: "calls (trace (save_daily ds n u p t w)) = calls (trace w)"
  by (simp add: save_daily_def case_prod_beta calls_def)

lemma calls_save_to_database:
  "calls (trace (save_to_database a b n u p t w)) = calls (trace w)"
  by (simp add: save_to_database_def Let_def calls_save_summary calls_save_daily)
     (simp add: calls_def)

lemma collection_save_to_database_cong:
  "collection w1 = collection w2 \<Longrightarrow>
     collection (save_to_database a b n u p t w1) = collection (save_to_database a b n u p t w2)"
  by (simp add: save_to_database_def Let_def collection_save_summary collection_save_daily)

lemma save_to_database_summaries:
  "\<not> truthy_list b \<Longrightarrow>
     filter is_summary (collection (save_to_database a b n u p t w)) = filter is_summary (collection w)"
  by (simp add: save_to_database_def Let_def collection_save_daily fold_upsert_summaries)

lemma save_to_database_others:
  "\<not> truthy_list a \<Longrightarrow>
     filter (\<lambda>x. \<not> is_summary x) (collection (save_to_database a b n u p t w))
       = filter (\<lambda>x. \<not> is_summary x) (collection w)"
  by (simp add: save_to_database_def Let_def save_summary_others)

text \<open>
  Claim C6: with no overview and a non-empty earnings list, the summary documents of the
  collection are left as they are (none is written, none is zeroed), while the collection
  receives the upserts of all daily records computed from the list, in order; every daily
  record that no later record of the same date overwrites is then stored as its document,
  and the log counts one upsert per earnings record. With an overview (a non-empty mapping;
  the empty one is the subject of claim C10) and no earnings list, the summary built from
  the overview is upserted and is in the collection, and no other document changes.
\<close>

theorem partial_data_persisted:
  "(recs \<noteq> [] \<longrightarrow>
      filter is_summary (collection (save_to_database (Some recs) None n u p now w))
        = filter is_summary (collection w)
      \<and> collection (save_to_database (Some recs) None n u p now w)
        = foldl (\<lambda>c d. fst (upsert_daily d n u p now c)) (collection w)
            (calculate_daily_uptime recs u)
      \<and> (\<forall>pre d post. calculate_daily_uptime recs u = pre @ d # post
            \<and> daily_date d \<notin> daily_date ` set post \<longrightarrow>
            daily_doc d n u p now \<in> set (collection (save_to_database (Some recs) None n u p now w)))
      \<and> (\<exists>sc uc. trace (save_to_database (Some recs) None n u p now w)
                     = trace w @ [LogDaily n sc uc] \<and> sc + uc = length recs))
   \<and> (ov \<noteq> [] \<longrightarrow>
      collection (save_to_database None (Some ov) n u p now w)
        = fst (replace_one (summary_filter u) (summary_doc ov [] n u p now) (collection w))
      \<and> summary_doc ov [] n u p now \<in> set (collection (save_to_database None (Some ov) n u p now w))
      \<and> filter (\<lambda>x. \<not> is_summary x) (collection (save_to_database None (Some ov) n u p now w))
        = filter (\<lambda>x. \<not> is_summary x) (collection w)
      \<and> (\<exists>m a d h mi. trace (save_to_database None (Some ov) n u p now w)
                     = trace w @ [LogSummary m n a d h mi]))"
proof (intro conjI impI)
  assume r: "recs \<noteq> []"
  then have ne: "calculate_daily_uptime recs u \<noteq> []"
    by (metis length_0_conv length_daily_loop calculate_eq_loop length_sort sorted_records_def)
  have len: "length (calculate_daily_uptime recs u) = length recs"
    by (simp add: calculate_eq_loop length_daily_loop sorted_records_def)
  have s: "save_to_database (Some recs) None n u p now w
             = save_daily (calculate_daily_uptime recs u) n u p now w"
    using r ne by (simp add: save_to_database_def truthy_list_def get_or_def Let_def)
  show "filter is_summary (collection (save_to_database (Some recs) None n u p now w))
        = filter is_summary (collection w)"
    by (rule save_to_database_summaries) (simp add: truthy_list_def)
  show c: "collection (save_to_database (Some recs) None n u p now w)
        = foldl (\<lambda>c d. fst (upsert_daily d n u p now c)) (collection w)
            (calculate_daily_uptime recs u)"
    by (simp add: s collection_save_daily)
  show "\<forall>pre d post. calculate_daily_uptime recs u = pre @ d # post
            \<and> daily_date d \<notin> daily_date ` set post \<longrightarrow>
            daily_doc d n u p now \<in> set (collection (save_to_database (Some recs) None n u p now w))"
    unfolding c using fold_upsert_last_write by blast
  show "\<exists>sc uc. trace (save_to_database (Some recs) None n u p now w)
                     = trace w @ [LogDaily n sc uc] \<and> sc + uc = length recs"
    using trace_save_daily[of "calculate_daily_uptime recs u" n u p now w] by (simp add: s len)
next
  assume o: "ov \<noteq> []"
  have s: "save_to_database None (Some ov) n u p now w = save_summary ov [] n u p now w"
    using o by (simp add: save_to_database_def truthy_list_def get_or_def Let_def)
  show c: "collection (save_to_database None (Some ov) n u p now w)
        = fst (replace_one (summary_filter u) (summary_doc ov [] n u p now) (collection w))"
    by (simp add: s collection_save_summary)
  show "summary_doc ov [] n u p now \<in> set (collection (save_to_database None (Some ov) n u p now w))"
    unfolding c by (rule replace_one_member)
  show "filter (\<lambda>x. \<not> is_summary x) (collection (save_to_database None (Some ov) n u p now w))
        = filter (\<lambda>x. \<not> is_summary x) (collection w)"
    by (rule save_to_database_others) (simp add: truthy_list_def)
  show "\<exists>m a d h mi. trace (save_to_database None (Some ov) n u p now w)
                     = trace w @ [LogSummary m n a d h mi]"
    unfolding s by (rule trace_save_summary)
qed

theorem partial_data_persisted_witness:
  "one_record \<noteq> [] \<and> example_overview \<noteq> []
   \<and> filter is_summary
        (collection (save_to_database (Some one_record) None ''Account 1'' ''user-1'' ''pk-1''
                       1000 empty_world)) = []
   \<and> daily_doc (hd (calculate_daily_uptime one_record ''user-1'')) ''Account 1'' ''user-1''
        ''pk-1'' 1000
       \<in> set (collection (save_to_database (Some one_record) None ''Account 1'' ''user-1''
                            ''pk-1'' 1000 empty_world))
   \<and> collection (save_to_database None (Some example_overview) ''Account 1'' ''user-1'' ''pk-1''
                    1000 empty_world)
       = [summary_doc example_overview [] ''Account 1'' ''user-1'' ''pk-1'' 1000]"
proof -
  have r: "one_record \<noteq> []" by (simp add: one_record_def)
  have o: "example_overview \<noteq> []" by (simp add: example_overview_def)
  have "length (calculate_daily_uptime one_record ''user-1'') = 1"
    by (simp add: calculate_eq_loop length_daily_loop sorted_records_def)
       (simp add: one_record_def)
  then have e: "calculate_daily_uptime one_record ''user-1''
                  = [] @ hd (calculate_daily_uptime one_record ''user-1'') # []"
    by (cases "calculate_daily_uptime one_record ''user-1''") simp_all
  have n: "daily_date (hd (calculate_daily_uptime one_record ''user-1''))
             \<notin> daily_date ` set []" by simp
  note t = partial_data_persisted[where recs = one_record and ov = example_overview
      and n = "''Account 1''" and u = "''user-1''" and p = "''pk-1''" and now = 1000
      and w = empty_world]
  from t r have b: "\<forall>pre d post. calculate_daily_uptime one_record ''user-1'' = pre @ d # post
            \<and> daily_date d \<notin> daily_date ` set post \<longrightarrow>
            daily_doc d ''Account 1'' ''user-1'' ''pk-1'' 1000
              \<in> set (collection (save_to_database (Some one_record) None ''Account 1''
                                   ''user-1'' ''pk-1'' 1000 empty_world))"
    by blast
  from b e n have m: "daily_doc (hd (calculate_daily_uptime one_record ''user-1''))
        ''Account 1'' ''user-1'' ''pk-1'' 1000
       \<in> set (collection (save_to_database (Some one_record) None ''Account 1'' ''user-1''
                            ''pk-1'' 1000 empty_world))"
    by blast
  from t r have s: "filter is_summary
        (collection (save_to_database (Some one_record) None ''Account 1'' ''user-1'' ''pk-1''
                       1000 empty_world)) = filter is_summary (collection empty_world)"
    by blast
  from t o have c: "collection (save_to_database None (Some example_overview) ''Account 1''
                       ''user-1'' ''pk-1'' 1000 empty_world)
       = fst (replace_one (summary_filter ''user-1'')
                (summary_doc example_overview [] ''Account 1'' ''user-1'' ''pk-1'' 1000)
                (collection empty_world))"
    by blast
  have ew: "collection empty_world = []" by (simp add: empty_world_def)
  show ?thesis using r o m by (simp add: s c ew)
qed

text \<open>
  Claim C10: \<^verbatim>\<open>save_to_database\<close> tests its two inputs for truth, so the empty overview
  behaves exactly as the absent one and the empty earnings list exactly as the absent one.
  With the empty overview no summary document is written, whatever the earnings; with the
  empty earnings list no daily document is written, whatever the overview; with both empty
  the function only logs that there is no data and the collection is unchanged.
\<close>

theorem empty_inputs_like_absent:
  "save_to_database uptime_data (Some []) n u p now w = save_to_database uptime_data None n u p now w
   \<and> save_to_database (Some []) overview_data n u p now w
       = save_to_database None overview_data n u p now w
   \<and> filter is_summary (collection (save_to_database uptime_data (Some []) n u p now w))
       = filter is_summary (collection w)
   \<and> filter (\<lambda>x. \<not> is_summary x) (collection (save_to_database (Some []) overview_data n u p now w))
       = filter (\<lambda>x. \<not> is_summary x) (collection w)
   \<and> save_to_database (Some []) (Some []) n u p now w = emit (LogNoData n) w
   \<and> collection (save_to_database (Some []) (Some []) n u p now w) = collection w"
proof -
  have 1: "save_to_database uptime_data (Some []) n u p now w
             = save_to_database uptime_data None n u p now w"
    by (simp add: save_to_database_def truthy_list_def)
  have 2: "save_to_database (Some []) overview_data n u p now w
             = save_to_database None overview_data n u p now w"
    by (simp add: save_to_database_def truthy_list_def)
  have 3: "filter is_summary (collection (save_to_database uptime_data (Some []) n u p now w))
       = filter is_summary (collection w)"
    by (rule save_to_database_summaries) (simp add: truthy_list_def)
  have 4: "filter (\<lambda>x. \<not> is_summary x)
             (collection (save_to_database (Some []) overview_data n u p now w))
       = filter (\<lambda>x. \<not> is_summary x) (collection w)"
    by (rule save_to_database_others) (simp add: truthy_list_def)
  have 5: "save_to_database (Some []) (Some []) n u p now w = emit (LogNoData n) w"
    by (simp add: save_to_database_def truthy_list_def)
  from 1 2 3 4 5 show ?thesis by simp
qed

section \<open>Properties of \<^verbatim>\<open>process_account\<close>\<close>

lemma range_max_retries: "[0..<max_retries] = [0, 1, 2]"
  by (simp add: max_retries_def upt_rec)

lemma attempt_step:
  assumes "\<not> falsy (acct_jwt_token acct)" "\<not> falsy (acct_user_id acct)" "\<not> falsy (acct_pubkey acct)"
  shows "attempts env acct (attempt # rest) w =
     (let name = get_or (acct_name acct) ''Unknown'';
          w1 = emit (LogProcessing name (attempt + 1) max_retries) w;
          w2 = (if attempt > 0 then emit (Sleep retry_delay) w1 else w1);
          w4 = w2\<lparr>trace := trace w2 @ fetch_calls acct\<rparr>
      in if attempt_succeeds env acct attempt
         then emit (LogCompleted name) (persisted env acct attempt (emit SaveToDatabase w4))
         else attempts env acct rest
                (if attempt < max_retries - 1
                 then emit (LogRetrying name retry_delay) w4
                 else emit (LogFailed name max_retries) w4))"
  using assms
  by (simp add: Let_def attempt_succeeds_def persisted_def fetched_overview_def
      fetched_uptime_def fetch_calls_def emit_def)

text \<open>
  Claim C8: an account whose token, user id or public key is absent or empty is skipped in
  the first pass of the loop: the run only adds the log line of the skip to the trace, so
  it makes no fetch call, no call of \<^verbatim>\<open>save_to_database\<close> and no sleep, and the
  collection is unchanged.
\<close>

theorem missing_field_skips:
  assumes "falsy (acct_jwt_token acct) \<or> falsy (acct_user_id acct) \<or> falsy (acct_pubkey acct)"
  shows "process_account env acct w = emit (LogSkipping (get_or (acct_name acct) ''Unknown'')) w
       \<and> trace (process_account env acct w)
           = trace w @ [LogSkipping (get_or (acct_name acct) ''Unknown'')]
       \<and> calls (trace (process_account env acct w)) = calls (trace w)
       \<and> collection (process_account env acct w) = collection w"
proof -
  have "process_account env acct w = emit (LogSkipping (get_or (acct_name acct) ''Unknown'')) w"
    using assms by (simp add: process_account_def range_max_retries Let_def)
  then show ?thesis by (simp add: calls_def)
qed

theorem missing_field_skips_witness:
  "(falsy (acct_jwt_token account_no_pubkey) \<or> falsy (acct_user_id account_no_pubkey)
      \<or> falsy (acct_pubkey account_no_pubkey))
   \<and> trace (process_account third_time_lucky account_no_pubkey empty_world)
        = [LogSkipping ''Account 2'']
   \<and> calls (trace (process_account third_time_lucky account_no_pubkey empty_world)) = []
   \<and> collection (process_account third_time_lucky account_no_pubkey empty_world) = []"
proof -
  have h: "falsy (acct_jwt_token account_no_pubkey) \<or> falsy (acct_user_id account_no_pubkey)
      \<or> falsy (acct_pubkey account_no_pubkey)"
    by (simp add: account_no_pubkey_def falsy_def)
  have n: "get_or (acct_name account_no_pubkey) ''Unknown'' = ''Account 2''"
    by (simp add: account_no_pubkey_def get_or_def)
  from missing_field_skips[OF h, of third_time_lucky empty_world] h n show ?thesis
    by (simp add: empty_world_def calls_def)
qed

text \<open>
  Claim C9: for an account with the three fields, the calls of a run are, in order: the two
  fetches of attempt 1; if both return \<open>None\<close>, a sleep of 10 seconds and the two fetches of
  attempt 2; if both return \<open>None\<close> again, a sleep of 10 seconds and the two fetches of
  attempt 3; and nothing after that. The first attempt in which a fetch returns data is
  followed by one call of \<^verbatim>\<open>save_to_database\<close> on what that attempt fetched, which ends
  the run; when all three attempts fail the collection is unchanged.
\<close>

theorem bounded_retries:
  assumes "\<not> falsy (acct_jwt_token acct)" and "\<not> falsy (acct_user_id acct)"
    and "\<not> falsy (acct_pubkey acct)"
  shows "(attempt_succeeds env acct 0 \<longrightarrow>
            calls (trace (process_account env acct w))
              = calls (trace w) @ fetch_calls acct @ [SaveToDatabase]
            \<and> collection (process_account env acct w) = collection (persisted env acct 0 w))
       \<and> (\<not> attempt_succeeds env acct 0 \<and> attempt_succeeds env acct 1 \<longrightarrow>
            calls (trace (process_account env acct w))
              = calls (trace w) @ fetch_calls acct
                  @ Sleep 10 # fetch_calls acct @ [SaveToDatabase]
            \<and> collection (process_account env acct w) = collection (persisted env acct 1 w))
       \<and> (\<not> attempt_succeeds env acct 0 \<and> \<not> attempt_succeeds env acct 1
            \<and> attempt_succeeds env acct 2 \<longrightarrow>
            calls (trace (process_account env acct w))
              = calls (trace w) @ fetch_calls acct
                  @ Sleep 10 # fetch_calls acct
                  @ Sleep 10 # fetch_calls acct @ [SaveToDatabase]
            \<and> collection (process_account env acct w) = collection (persisted env acct 2 w))
       \<and> (\<not> attempt_succeeds env acct 0 \<and> \<not> attempt_succeeds env acct 1
            \<and> \<not> attempt_succeeds env acct 2 \<longrightarrow>
            calls (trace (process_account env acct w))
              = calls (trace w) @ fetch_calls acct
                  @ Sleep 10 # fetch_calls acct
                  @ Sleep 10 # fetch_calls acct
            \<and> collection (process_account env acct w) = collection w)"
proof -
  have cf: "calls (fetch_calls acct) = fetch_calls acct"
    by (simp add: calls_def fetch_calls_def)
  have cp: "\<And>i v. calls (trace (persisted env acct i v)) = calls (trace v)"
    by (simp add: persisted_def calls_save_to_database)
  have cc: "\<And>i v e. collection (persisted env acct i (emit e v))
      = collection (persisted env acct i v)"
    "\<And>i v t. collection (persisted env acct i (v\<lparr>trace := t\<rparr>))
      = collection (persisted env acct i v)"
    unfolding persisted_def by (rule collection_save_to_database_cong, simp)+
  have ce: "\<And>e t. calls (e # t) = (if is_call e then e # calls t else calls t)"
    "calls [] = []"
    by (simp_all add: calls_def)
  note step = attempt_step[OF assms]
  show ?thesis
    unfolding process_account_def range_max_retries
    by (simp add: step Let_def cf cp cc ce max_retries_def retry_delay_def
        del: attempts.simps(2))
qed

theorem bounded_retries_witness:
  "\<not> falsy (acct_jwt_token account_1) \<and> \<not> falsy (acct_user_id account_1)
   \<and> \<not> falsy (acct_pubkey account_1)
   \<and> \<not> attempt_succeeds third_time_lucky account_1 0
   \<and> \<not> attempt_succeeds third_time_lucky account_1 1
   \<and> attempt_succeeds third_time_lucky account_1 2
   \<and> calls (trace (process_account third_time_lucky account_1 empty_world))
       = [FetchOverview ''jwt'', FetchUptime ''jwt'' ''pk-1'', Sleep 10,
          FetchOverview ''jwt'', FetchUptime ''jwt'' ''pk-1'', Sleep 10,
          FetchOverview ''jwt'', FetchUptime ''jwt'' ''pk-1'', SaveToDatabase]
   \<and> collection (process_account third_time_lucky account_1 empty_world)
       = [summary_doc example_overview [] ''Account 1'' ''user-1'' ''pk-1'' 1002]
   \<and> \<not> attempt_succeeds never_answers account_1 0
   \<and> \<not> attempt_succeeds never_answers account_1 1
   \<and> \<not> attempt_succeeds never_answers account_1 2
   \<and> calls (trace (process_account never_answers account_1 empty_world))
       = [FetchOverview ''jwt'', FetchUptime ''jwt'' ''pk-1'', Sleep 10,
          FetchOverview ''jwt'', FetchUptime ''jwt'' ''pk-1'', Sleep 10,
          FetchOverview ''jwt'', FetchUptime ''jwt'' ''pk-1'']
   \<and> collection (process_account never_answers account_1 empty_world) = []"
proof -
  have h: "\<not> falsy (acct_jwt_token account_1)" "\<not> falsy (acct_user_id account_1)"
    "\<not> falsy (acct_pubkey account_1)"
    by (simp_all add: account_1_def falsy_def)
  have a: "\<not> attempt_succeeds third_time_lucky account_1 0"
    "\<not> attempt_succeeds third_time_lucky account_1 1"
    "attempt_succeeds third_time_lucky account_1 2"
    by (simp_all add: attempt_succeeds_def fetched_overview_def fetched_uptime_def
        third_time_lucky_def)
  have b: "\<not> attempt_succeeds never_answers account_1 0"
    "\<not> attempt_succeeds never_answers account_1 1"
    "\<not> attempt_succeeds never_answers account_1 2"
    by (simp_all add: attempt_succeeds_def fetched_overview_def fetched_uptime_def
        never_answers_def)
  have fc: "fetch_calls account_1 = [FetchOverview ''jwt'', FetchUptime ''jwt'' ''pk-1'']"
    by (simp add: fetch_calls_def account_1_def get_or_def)
  have p: "collection (persisted third_time_lucky account_1 2 empty_world)
             = [summary_doc example_overview [] ''Account 1'' ''user-1'' ''pk-1'' 1002]"
    by (simp add: persisted_def fetched_overview_def fetched_uptime_def third_time_lucky_def
        account_1_def get_or_def save_to_database_def truthy_list_def example_overview_def
        collection_save_summary empty_world_def)
  have ew: "trace empty_world = []" "collection empty_world = []"
    by (simp_all add: empty_world_def)
  from bounded_retries[OF h, of third_time_lucky empty_world]
    bounded_retries[OF h, of never_answers empty_world]
  show ?thesis using h a b by (simp add: fc p ew calls_def)
qed

end
